theory Spec2Isabelle
  imports Main
begin

section \<open>Collaborators of the persistence components\<close>

text \<open>
  A Go \<open>error\<close> is an interface value; \<open>nil\<close> is \<open>None\<close>.  A value of type
  \<open>interface{}\<close> is a value of the type variable \<open>'v\<close>; a slice that may be \<open>nil\<close> is an
  optional list.
\<close>

type_synonym error = string

text \<open>
  The ways in which a call of this package does not return: the explicit \<open>panic\<close> of
  \<open>load\<close>, the panic of \<open>reflect.New\<close> on a nil type, the dereference of a nil pointer,
  and the runtime's fatal error for unlocking a mutex that is not locked.
\<close>

datatype panic =
    LoadCannotConvert
  | ReflectNewNil
  | NilPointerDereference
  | UnlockOfUnlockedMutex

text \<open>
  \<open>sync.RWMutex\<close>: free, held by readers (\<open>Readers n\<close> stands for \<open>n + 1\<close> of
  them), or held by the writer.
  \<open>Lock\<close> and \<open>RLock\<close> give \<open>None\<close> where the calling goroutine is parked;
  \<open>Unlock\<close> and \<open>RUnlock\<close> give \<open>None\<close> where the runtime stops the process.
  The mutex is not reentrant: \<open>RLock\<close> waits while the writer holds it, whoever the
  writer is.
\<close>

datatype RWMutex = Unlocked | Readers nat | WLocked

fun Lock :: "RWMutex \<Rightarrow> RWMutex option" where
  "Lock Unlocked = Some WLocked"
| "Lock (Readers n) = None"
| "Lock WLocked = None"

fun Unlock :: "RWMutex \<Rightarrow> RWMutex option" where
  "Unlock WLocked = Some Unlocked"
| "Unlock (Readers n) = None"
| "Unlock Unlocked = None"

fun RLock :: "RWMutex \<Rightarrow> RWMutex option" where
  "RLock Unlocked = Some (Readers 0)"
| "RLock (Readers n) = Some (Readers (Suc n))"
| "RLock WLocked = None"

fun RUnlock :: "RWMutex \<Rightarrow> RWMutex option" where
  "RUnlock (Readers 0) = Some Unlocked"
| "RUnlock (Readers (Suc n)) = Some (Readers n)"
| "RUnlock Unlocked = None"
| "RUnlock WLocked = None"

text \<open>
  \<open>ILoader\<close> and \<open>ISaver\<close> are interfaces over an external data source.  The data source
  is a state \<open>'m\<close> of its own, outside the store: \<open>Load\<close> reads it and \<open>Save\<close> replaces it,
  and both may fail.
\<close>

type_synonym ('v, 'm) ILoader = "string \<Rightarrow> 'm \<Rightarrow> ('v list option \<times> error option) \<times> 'm"

type_synonym ('v, 'm) ISaver = "string \<Rightarrow> 'v list \<Rightarrow> 'm \<Rightarrow> error option \<times> 'm"

text \<open>
  The composite logger is kept as the list of the trace messages it has received:
  correlation id, format string and arguments.
\<close>

type_synonym log_entry = "string \<times> string \<times> nat list"

text \<open>
  The library functions \<open>load\<close> calls are parameters of the model:
  \<open>convert.MapConverter.ToNullableMap\<close>, \<open>json.Marshal\<close>, \<open>reflect.New\<close> on a non-nil
  type (the new zero value behind the pointer) and \<open>json.Unmarshal\<close>, which gives the
  value behind the pointer after the call together with its error.
\<close>

record ('v, 'mp, 'b, 'ty) library =
  ToNullableMap :: "'v \<Rightarrow> 'mp option"
  Marshal :: "'mp option \<Rightarrow> error + 'b"
  New :: "'ty \<Rightarrow> 'v"
  Unmarshal :: "'b \<Rightarrow> 'v \<Rightarrow> 'v \<times> error option"

section \<open>MemoryPersistence\<close>

record ('v, 'ty, 'm) MemoryPersistence =
  logger :: "log_entry list"
  items :: "'v list"
  loader :: "('v, 'm) ILoader option"
  saver :: "('v, 'm) ISaver option"
  opened :: bool
  prototype :: "'ty option"
  lockMutex :: RWMutex

text \<open>
  A call returns a result in a new state (the store and the data source), panics, which
  ends the process since nothing in the package recovers, or blocks for ever in the state
  it has reached.
\<close>

datatype ('a, 's) outcome = Returns 'a 's | Panics panic | Blocks 's

text \<open>A deferred \<open>Unlock\<close> or \<open>RUnlock\<close> runs when the function returns or panics.\<close>

definition deferred ::
  "(RWMutex \<Rightarrow> RWMutex option) \<Rightarrow>
   ('a, ('v, 'ty, 'm) MemoryPersistence \<times> 'm) outcome \<Rightarrow>
   ('a, ('v, 'ty, 'm) MemoryPersistence \<times> 'm) outcome" where
  "deferred unlock out =
     (case out of
        Returns r (c, m) \<Rightarrow>
          (case unlock (lockMutex c) of
             None \<Rightarrow> Panics UnlockOfUnlockedMutex
           | Some l \<Rightarrow> Returns r (c\<lparr>lockMutex := l\<rparr>, m))
      | Panics p \<Rightarrow> Panics p
      | Blocks s \<Rightarrow> Blocks s)"

definition NewEmptyMemoryPersistence ::
  "'ty option \<Rightarrow> ('v, 'ty, 'm) MemoryPersistence option" where
  "NewEmptyMemoryPersistence prototype' =
     (case prototype' of
        None \<Rightarrow> None
      | Some t \<Rightarrow>
          Some \<lparr>logger = [], items = [], loader = None, saver = None, opened = False,
                prototype = Some t, lockMutex = Unlocked\<rparr>)"

definition NewMemoryPersistence ::
  "'ty option \<Rightarrow> ('v, 'm) ILoader option \<Rightarrow> ('v, 'm) ISaver option \<Rightarrow>
   ('v, 'ty, 'm) MemoryPersistence option" where
  "NewMemoryPersistence prototype' loader' saver' =
     (case prototype' of
        None \<Rightarrow> None
      | Some t \<Rightarrow>
          Some \<lparr>logger = [], items = [], loader = loader', saver = saver', opened = False,
                prototype = None, lockMutex = Unlocked\<rparr>)"

definition IsOpen :: "('v, 'ty, 'm) MemoryPersistence \<Rightarrow> bool" where
  "IsOpen c = opened c"

text \<open>
  The loop of \<open>load\<close> over the loaded items.  The error of \<open>json.Unmarshal\<close> is not
  looked at: the value behind the pointer is stored whatever it says.
\<close>

fun load_items ::
  "('v, 'mp, 'b, 'ty) library \<Rightarrow> 'ty option \<Rightarrow> 'v list \<Rightarrow> panic + 'v list" where
  "load_items L T [] = Inr []"
| "load_items L T (v # vs) =
     (case Marshal L (ToNullableMap L v) of
        Inl errJson \<Rightarrow> Inl LoadCannotConvert
      | Inr jsonMarshalStr \<Rightarrow>
          (case T of
             None \<Rightarrow> Inl ReflectNewNil
           | Some t \<Rightarrow>
               (let value = fst (Unmarshal L jsonMarshalStr (New L t))
                in case load_items L T vs of
                     Inl p \<Rightarrow> Inl p
                   | Inr rest \<Rightarrow> Inr (value # rest))))"

definition load ::
  "('v, 'mp, 'b, 'ty) library \<Rightarrow> string \<Rightarrow> ('v, 'ty, 'm) MemoryPersistence \<times> 'm \<Rightarrow>
   (error option, ('v, 'ty, 'm) MemoryPersistence \<times> 'm) outcome" where
  "load L correlationId cm =
     (case cm of (c, m) \<Rightarrow>
        (case loader c of
           None \<Rightarrow> Returns None (c, m)
         | Some ld \<Rightarrow>
             (case ld correlationId m of ((loaded, err), m') \<Rightarrow>
                (case loaded of
                   None \<Rightarrow> Returns err (c, m')
                 | Some vs \<Rightarrow>
                     if err = None then
                       (case load_items L (prototype c) vs of
                          Inl p \<Rightarrow> Panics p
                        | Inr ys \<Rightarrow>
                            Returns err
                              (c\<lparr>items := ys,
                                 logger := logger c @
                                   [(correlationId, ''Loaded %d items'', [length ys])]\<rparr>, m'))
                     else Returns err (c, m')))))"

definition Open ::
  "('v, 'mp, 'b, 'ty) library \<Rightarrow> string \<Rightarrow> ('v, 'ty, 'm) MemoryPersistence \<times> 'm \<Rightarrow>
   (error option, ('v, 'ty, 'm) MemoryPersistence \<times> 'm) outcome" where
  "Open L correlationId cm =
     (case cm of (c, m) \<Rightarrow>
        (case Lock (lockMutex c) of
           None \<Rightarrow> Blocks (c, m)
         | Some l \<Rightarrow>
             deferred Unlock
               (case load L correlationId (c\<lparr>lockMutex := l\<rparr>, m) of
                  Returns err (c', m') \<Rightarrow>
                    Returns err (if err = None then c'\<lparr>opened := True\<rparr> else c', m')
                | Panics p \<Rightarrow> Panics p
                | Blocks s \<Rightarrow> Blocks s)))"

definition Save ::
  "string \<Rightarrow> ('v, 'ty, 'm) MemoryPersistence \<times> 'm \<Rightarrow>
   (error option, ('v, 'ty, 'm) MemoryPersistence \<times> 'm) outcome" where
  "Save correlationId cm =
     (case cm of (c, m) \<Rightarrow>
        (case RLock (lockMutex c) of
           None \<Rightarrow> Blocks (c, m)
         | Some l \<Rightarrow>
             deferred RUnlock
               (let c1 = c\<lparr>lockMutex := l\<rparr>
                in case saver c1 of
                     None \<Rightarrow> Returns None (c1, m)
                   | Some sv \<Rightarrow>
                       (case sv correlationId (items c1) m of (err, m') \<Rightarrow>
                          Returns err
                            (if err = None then
                               c1\<lparr>logger := logger c1 @
                                    [(correlationId, ''Saved %d items'', [length (items c1)])]\<rparr>
                             else c1, m')))))"

definition Close ::
  "string \<Rightarrow> ('v, 'ty, 'm) MemoryPersistence \<times> 'm \<Rightarrow>
   (error option, ('v, 'ty, 'm) MemoryPersistence \<times> 'm) outcome" where
  "Close correlationId cm =
     (case Save correlationId cm of
        Returns err (c, m) \<Rightarrow> Returns err (c\<lparr>opened := False\<rparr>, m)
      | Panics p \<Rightarrow> Panics p
      | Blocks s \<Rightarrow> Blocks s)"

definition Clear ::
  "string \<Rightarrow> ('v, 'ty, 'm) MemoryPersistence \<times> 'm \<Rightarrow>
   (error option, ('v, 'ty, 'm) MemoryPersistence \<times> 'm) outcome" where
  "Clear correlationId cm =
     (case cm of (c, m) \<Rightarrow>
        (case Lock (lockMutex c) of
           None \<Rightarrow> Blocks (c, m)
         | Some l \<Rightarrow>
             deferred Unlock
               (let c1 = c\<lparr>lockMutex := l, items := []\<rparr>;
                    c2 = c1\<lparr>logger := logger c1 @ [(correlationId, ''Cleared items'', [])]\<rparr>
                in Save correlationId (c2, m))))"

section \<open>FilePersistence\<close>

type_synonym ConfigParams = "string \<rightharpoonup> string"

text \<open>
  \<open>JsonFilePersister\<close> is a struct of type \<open>'p\<close>.  Its constructor and its methods
  \<open>Configure\<close>, \<open>Load\<close> and \<open>Save\<close> are parameters of the model.
\<close>

record ('p, 'v, 'm) JsonFilePersister =
  NewJsonFilePersister :: "string \<Rightarrow> 'p"
  persister_Configure :: "ConfigParams \<Rightarrow> 'p \<Rightarrow> 'p"
  persister_Load :: "'p \<Rightarrow> ('v, 'm) ILoader"
  persister_Save :: "'p \<Rightarrow> ('v, 'm) ISaver"

text \<open>
  \<open>&persister == nil\<close> compares the address of the function's own parameter with
  \<open>nil\<close>.  The address of a variable is never \<open>nil\<close>, whatever the variable holds.
\<close>

definition address_is_nil :: "'a \<Rightarrow> bool" where
  "address_is_nil x = False"

record ('v, 'ty, 'm, 'p) FilePersistence =
  MemoryPersistence :: "('v, 'ty, 'm) MemoryPersistence"
  persister :: 'p

text \<open>
  \<open>*NewMemoryPersistence(...)\<close> dereferences the constructor's result, which is \<open>nil\<close>
  for a nil prototype.  The loader and the saver are both the pointer \<open>&persister\<close>.
\<close>

definition NewFilePersistence ::
  "('p, 'v, 'm) JsonFilePersister \<Rightarrow> 'ty option \<Rightarrow> 'p \<Rightarrow>
   panic + ('v, 'ty, 'm, 'p) FilePersistence" where
  "NewFilePersistence J prototype' persister' =
     (let persister1 =
            (if address_is_nil persister' then NewJsonFilePersister J [] else persister')
      in case NewMemoryPersistence prototype'
                (Some (persister_Load J persister1)) (Some (persister_Save J persister1)) of
           None \<Rightarrow> Inl NilPointerDereference
         | Some mp \<Rightarrow> Inr \<lparr>MemoryPersistence = mp, persister = persister1\<rparr>)"

definition FilePersistence_Configure ::
  "('p, 'v, 'm) JsonFilePersister \<Rightarrow> ConfigParams \<Rightarrow>
   ('v, 'ty, 'm, 'p) FilePersistence \<Rightarrow> ('v, 'ty, 'm, 'p) FilePersistence" where
  "FilePersistence_Configure J conf c =
     c\<lparr>persister := persister_Configure J conf (persister c)\<rparr>"

section \<open>IdentifiableFilePersistence\<close>

text \<open>
  The embedded \<open>IdentifiableMemoryPersistence\<close> is a struct of type \<open>'imp\<close>; its
  constructor, which returns a pointer that may be \<open>nil\<close>, is the parameter \<open>newIMP\<close>.
\<close>

record ('imp, 'p) IdentifiableFilePersistence =
  IdentifiableMemoryPersistence :: 'imp
  persister :: 'p

definition NewIdentifiableFilePersistence ::
  "('p, 'v, 'm) JsonFilePersister \<Rightarrow>
   ('ty option \<Rightarrow> ('v, 'm) ILoader option \<Rightarrow> ('v, 'm) ISaver option \<Rightarrow> 'imp option) \<Rightarrow>
   'ty option \<Rightarrow> 'p \<Rightarrow> panic + ('imp, 'p) IdentifiableFilePersistence" where
  "NewIdentifiableFilePersistence J newIMP prototype' persister' =
     (let persister1 =
            (if address_is_nil persister' then NewJsonFilePersister J [] else persister')
      in case newIMP prototype'
                (Some (persister_Load J persister1)) (Some (persister_Save J persister1)) of
           None \<Rightarrow> Inl NilPointerDereference
         | Some imp \<Rightarrow>
             Inr \<lparr>IdentifiableMemoryPersistence = imp, persister = persister1\<rparr>)"

text \<open>
  \<open>c.Configure(config)\<close> on a receiver of type \<open>*IdentifiableFilePersistence\<close> is the
  method being defined: it hides the method promoted from the embedded struct.  The call
  of the persister's \<open>Configure\<close> comes after it.  \<open>None\<close> is a call that never returns.
\<close>

partial_function (option) IdentifiableFilePersistence_Configure ::
  "('p, 'v, 'm) JsonFilePersister \<Rightarrow> ConfigParams \<Rightarrow>
   ('imp, 'p) IdentifiableFilePersistence \<Rightarrow> ('imp, 'p) IdentifiableFilePersistence option"
  where
  "IdentifiableFilePersistence_Configure J config c =
     Option.bind (IdentifiableFilePersistence_Configure J config c)
       (\<lambda>c'. Some (c'\<lparr>persister := persister_Configure J config (persister c')\<rparr>))"

section \<open>A small instance: records with one string field\<close>

text \<open>
  The instance used to run the model: values as JSON has them, the record type
  \<open>struct { Id string }\<close> as the only prototype, a file that holds a list of values or
  does not exist, and a persister that is its path.
\<close>

datatype val = Null | Num int | Str string | Obj "(string \<times> val) list"

definition Dummy_library ::
  "(val, (string \<times> val) list, (string \<times> val) list option, unit) library" where
  "Dummy_library =
     \<lparr>ToNullableMap = (\<lambda>v. case v of Obj kvs \<Rightarrow> Some kvs | _ \<Rightarrow> None),
      Marshal = (\<lambda>mp. Inr mp),
      New = (\<lambda>t. Obj [(''id'', Str [])]),
      Unmarshal = (\<lambda>b v. case b of
          None \<Rightarrow> (v, None)
        | Some kvs \<Rightarrow>
            (case map_of kvs ''id'' of
               None \<Rightarrow> (v, None)
             | Some (Str s) \<Rightarrow> (Obj [(''id'', Str s)], None)
             | Some _ \<Rightarrow>
                 (v, Some ''json: cannot unmarshal into Go struct field id of type string'')))\<rparr>"

definition file_Load :: "(val, val list option) ILoader" where
  "file_Load correlationId m = ((m, None), m)"

definition file_Save :: "(val, val list option) ISaver" where
  "file_Save correlationId xs m = (None, Some xs)"

definition failing_Load :: "(val, val list option) ILoader" where
  "failing_Load correlationId m = ((None, Some ''read error''), m)"

definition failing_Save :: "(val, val list option) ISaver" where
  "failing_Save correlationId xs m = (Some ''write error'', m)"

definition Dummy_store ::
  "(val, val list option) ILoader option \<Rightarrow> (val, val list option) ISaver option \<Rightarrow>
   (val, unit, val list option) MemoryPersistence" where
  "Dummy_store ld sv =
     \<lparr>logger = [], items = [Obj [(''id'', Str ''1'')]], loader = ld, saver = sv,
      opened = False, prototype = Some (), lockMutex = Unlocked\<rparr>"

definition Dummy_persister :: "(string, val, val list option) JsonFilePersister" where
  "Dummy_persister =
     \<lparr>NewJsonFilePersister = (\<lambda>path. path),
      persister_Configure = (\<lambda>conf p. case conf ''path'' of None \<Rightarrow> p | Some path \<Rightarrow> path),
      persister_Load = (\<lambda>p. file_Load),
      persister_Save = (\<lambda>p. file_Save)\<rparr>"

section \<open>The persister struct\<close>

text \<open>
  Modelled from the spec: the struct \<open>JsonFilePersister\<close> and its constructor
  \<open>NewJsonFilePersister\<close>, which are not among the sources.  The spec speaks of a
  persister constructed with an empty path and of the file path forwarded to it: the
  struct holds its path and the constructor stores the path it is given.
\<close>

record persister_struct =
  path :: string



section \<open>The lock around a call\<close>

lemma RLock_then_RUnlock:
  "l \<noteq> WLocked \<Longrightarrow> \<exists>l'. RLock l = Some l' \<and> RUnlock l' = Some l"
  by (cases l) auto

lemma Save_without_saver:
  assumes "lockMutex c \<noteq> WLocked" and "saver c = None"
  shows "Save cid (c, m) = Returns None (c, m)"
proof -
  obtain l' where l': "RLock (lockMutex c) = Some l'" "RUnlock l' = Some (lockMutex c)"
    using RLock_then_RUnlock [OF assms(1)] by blast
  show ?thesis
    using assms(2) l' by (simp add: Save_def deferred_def)
qed

lemma Save_with_saver:
  assumes "lockMutex c \<noteq> WLocked" and "saver c = Some sv"
  shows "Save cid (c, m) =
           Returns (fst (sv cid (items c) m))
             (c\<lparr>logger := logger c @
                  (if fst (sv cid (items c) m) = None
                   then [(cid, ''Saved %d items'', [length (items c)])] else [])\<rparr>,
              snd (sv cid (items c) m))"
proof -
  obtain l' where l': "RLock (lockMutex c) = Some l'" "RUnlock l' = Some (lockMutex c)"
    using RLock_then_RUnlock [OF assms(1)] by blast
  obtain err m' where r: "sv cid (items c) m = (err, m')"
    by (cases "sv cid (items c) m")
  show ?thesis
    using assms(2) l' r by (cases err) (simp_all add: Save_def deferred_def)
qed

lemma Open_failed_load:
  assumes "lockMutex c = Unlocked" and "loader c = Some ld"
    and "ld cid m = ((loaded, Some e), m')"
  shows "Open L cid (c, m) = Returns (Some e) (c, m')"
  using assms by (cases loaded) (simp_all add: Open_def load_def deferred_def)

section \<open>Open\<close>

lemma Open_without_loader:
  assumes "lockMutex c = Unlocked" and "loader c = None"
  shows "Open L cid (c, m) = Returns None (c\<lparr>opened := True\<rparr>, m)"
  using assms by (simp add: Open_def load_def deferred_def)

lemma Open_empty_list_loaded:
  assumes "lockMutex c = Unlocked" and "loader c = Some ld"
    and "ld cid m = ((Some [], None), m')"
  shows "Open L cid (c, m) =
           Returns None
             (c\<lparr>items := [], logger := logger c @ [(cid, ''Loaded %d items'', [0])],
                opened := True\<rparr>, m')"
  using assms by (simp add: Open_def load_def deferred_def)

text \<open>
  C1: when \<open>Open\<close> is called on a closed store and the loader returns an error, the call
  returns that error, the store is still closed, and the collection is the one from
  before the call; in fact the whole store is as it was.  This holds whether or not the
  loader returns items along with its error.
\<close>

theorem Open_loader_error:
  assumes "lockMutex c = Unlocked"
    and "loader c = Some ld"
    and "ld cid m = ((loaded, Some e), m')"
    and "IsOpen c = False"
  shows "\<exists>c'. Open L cid (c, m) = Returns (Some e) (c', m') \<and>
              IsOpen c' = False \<and> items c' = items c \<and> c' = c"
  using Open_failed_load [OF assms(1-3)] assms(4) by simp

theorem Open_loader_error_witness:
  "Open Dummy_library ''123'' (Dummy_store (Some failing_Load) None, None) =
     Returns (Some ''read error'') (Dummy_store (Some failing_Load) None, None) \<and>
   IsOpen (Dummy_store (Some failing_Load) None) = False \<and>
   items (Dummy_store (Some failing_Load) None) = [Obj [(''id'', Str ''1'')]]"
proof -
  let ?c = "Dummy_store (Some failing_Load) None"
  have h1: "lockMutex ?c = Unlocked" by (simp add: Dummy_store_def)
  have h2: "loader ?c = Some failing_Load" by (simp add: Dummy_store_def)
  have h3: "failing_Load ''123'' None = ((None, Some ''read error''), None)"
    by (simp add: failing_Load_def)
  have h4: "IsOpen ?c = False" by (simp add: IsOpen_def Dummy_store_def)
  show ?thesis
    using Open_loader_error [OF h1 h2 h3 h4, of Dummy_library] h4
    by (auto simp: Dummy_store_def)
qed

text \<open>
  C6: when the loader returns no error and either no items at all or an empty list,
  \<open>Open\<close> returns no error and the store is open.  With no items the collection is the
  one from before the call; with an empty list, which is how a medium that holds nothing
  may answer, the collection is replaced by the empty one.
\<close>

theorem Open_nothing_to_load:
  assumes "lockMutex c = Unlocked"
    and "loader c = Some ld"
    and "ld cid m = ((loaded, None), m')"
    and "loaded = None \<or> loaded = Some []"
  shows "\<exists>c'. Open L cid (c, m) = Returns None (c', m') \<and> IsOpen c' \<and>
              items c' = (case loaded of None \<Rightarrow> items c | Some vs \<Rightarrow> [])"
  using assms by (auto simp: Open_def load_def deferred_def IsOpen_def)

theorem Open_nothing_to_load_witness:
  "(\<exists>c'. Open Dummy_library ''123'' (Dummy_store (Some file_Load) None, None) =
           Returns None (c', None) \<and>
         IsOpen c' \<and> items c' = [Obj [(''id'', Str ''1'')]]) \<and>
   (\<exists>c'. Open Dummy_library ''123'' (Dummy_store (Some file_Load) None, Some []) =
           Returns None (c', Some []) \<and>
         IsOpen c' \<and> items c' = [])"
proof -
  let ?c = "Dummy_store (Some file_Load) None"
  have h1: "lockMutex ?c = Unlocked" by (simp add: Dummy_store_def)
  have h2: "loader ?c = Some file_Load" by (simp add: Dummy_store_def)
  have h3: "file_Load ''123'' None = ((None, None), None)"
    by (simp add: file_Load_def)
  have h3': "file_Load ''123'' (Some []) = ((Some [], None), Some [])"
    by (simp add: file_Load_def)
  have h4: "(None :: val list option) = None \<or> (None :: val list option) = Some []"
    by simp
  have h4': "Some ([] :: val list) = None \<or> Some ([] :: val list) = Some []"
    by simp
  show ?thesis
    using Open_nothing_to_load [OF h1 h2 h3 h4, of Dummy_library]
      Open_nothing_to_load [OF h1 h2 h3' h4', of Dummy_library]
    by (simp add: Dummy_store_def)
qed

text \<open>
  That the collection is kept on an empty medium does not hold in general: on a store
  that holds one item and whose file holds the empty list, the call returns no error,
  opens the store and leaves the collection empty.
\<close>

theorem Open_empty_medium_counterexample:
  "Open Dummy_library ''123''
     (\<lparr>logger = [], items = [Obj [(''id'', Str ''1'')]], loader = Some file_Load,
       saver = None, opened = False, prototype = None, lockMutex = Unlocked\<rparr>, Some []) =
   Returns None
     (\<lparr>logger = [(''123'', ''Loaded %d items'', [0])], items = [],
       loader = Some file_Load, saver = None, opened = True, prototype = None,
       lockMutex = Unlocked\<rparr>, Some []) \<and>
   [Obj [(''id'', Str ''1'')]] \<noteq> ([] :: val list)"
  by (simp add: Open_def load_def deferred_def file_Load_def)

section \<open>Save and Close\<close>

text \<open>
  C5: \<open>Save\<close>, called while no writer holds the lock, hands the saver the collection the
  store holds at that moment, whole, and returns the saver's answer; the store is changed
  in its log only, by one line on success.  Without a saver it returns no error, the data
  source is not touched and the store is as it was.
\<close>

theorem Save_passes_current_items:
  assumes "lockMutex c \<noteq> WLocked"
  shows "Save cid (c, m) =
           (case saver c of
              None \<Rightarrow> Returns None (c, m)
            | Some sv \<Rightarrow>
                Returns (fst (sv cid (items c) m))
                  (c\<lparr>logger := logger c @
                       (if fst (sv cid (items c) m) = None
                        then [(cid, ''Saved %d items'', [length (items c)])] else [])\<rparr>,
                   snd (sv cid (items c) m)))"
proof (cases "saver c")
  case None
  then show ?thesis using Save_without_saver [OF assms] by simp
next
  case (Some sv)
  then show ?thesis using Save_with_saver [OF assms] by simp
qed

theorem Save_passes_current_items_witness:
  "Save ''123'' (Dummy_store None (Some file_Save), None) =
     Returns None
       ((Dummy_store None (Some file_Save))
          \<lparr>logger := [(''123'', ''Saved %d items'', [1])]\<rparr>,
        Some [Obj [(''id'', Str ''1'')]]) \<and>
   Save ''123'' (Dummy_store None None, None) = Returns None (Dummy_store None None, None)"
proof -
  have h1: "lockMutex (Dummy_store None (Some file_Save)) \<noteq> WLocked"
    by (simp add: Dummy_store_def)
  have h2: "lockMutex (Dummy_store None None) \<noteq> WLocked"
    by (simp add: Dummy_store_def)
  show ?thesis
    using Save_passes_current_items [OF h1, of "''123''" None]
      Save_passes_current_items [OF h2, of "''123''" None]
    by (simp add: Dummy_store_def file_Save_def)
qed

text \<open>
  C7: \<open>Close\<close>, called while no writer holds the lock, runs \<open>Save\<close>, returns what
  \<open>Save\<close> returned, error or not, and leaves the store that \<open>Save\<close> left, marked closed.
\<close>

theorem Close_saves_then_closes:
  assumes "lockMutex c \<noteq> WLocked"
  shows "\<exists>err c' m'. Save cid (c, m) = Returns err (c', m') \<and>
           Close cid (c, m) = Returns err (c'\<lparr>opened := False\<rparr>, m') \<and>
           IsOpen (c'\<lparr>opened := False\<rparr>) = False"
proof (cases "saver c")
  case None
  then show ?thesis
    using Save_without_saver [OF assms] by (simp add: Close_def IsOpen_def)
next
  case (Some sv)
  then show ?thesis
    using Save_with_saver [OF assms] by (simp add: Close_def IsOpen_def)
qed

theorem Close_saves_then_closes_witness:
  "Close ''123'' ((Dummy_store None (Some failing_Save))\<lparr>opened := True\<rparr>, None) =
     Returns (Some ''write error'') (Dummy_store None (Some failing_Save), None)"
proof -
  let ?c = "(Dummy_store None (Some failing_Save))\<lparr>opened := True\<rparr>"
  have h: "lockMutex ?c \<noteq> WLocked" by (simp add: Dummy_store_def)
  have s: "Save ''123'' (?c, None) = Returns (Some ''write error'') (?c, None)"
    using Save_with_saver [of ?c failing_Save "''123''" None]
    by (simp add: Dummy_store_def failing_Save_def)
  show ?thesis
    using Close_saves_then_closes [OF h, of "''123''" None] s
    by (auto simp: Dummy_store_def)
qed

section \<open>The prototype of a new store\<close>

lemma NewEmptyMemoryPersistence_prototype:
  "map_option prototype (NewEmptyMemoryPersistence (Some t)) = Some (Some t)"
  by (simp add: NewEmptyMemoryPersistence_def)

lemma NewMemoryPersistence_prototype:
  "map_option prototype (NewMemoryPersistence (Some t) ld sv) = Some None"
  by (simp add: NewMemoryPersistence_def)

text \<open>
  C2: a store from \<open>NewMemoryPersistence\<close> with the prototype \<open>struct { Id string }\<close> holds
  no prototype, and \<open>Open\<close> on it, with a loader that returns one item, panics in
  \<open>reflect.New\<close> on the nil type.  \<open>NewEmptyMemoryPersistence\<close> does record its prototype.
\<close>

theorem NewMemoryPersistence_drops_prototype:
  "(case NewMemoryPersistence (Some ()) (Some file_Load) None of
      None \<Rightarrow> False
    | Some c \<Rightarrow>
        prototype c = None \<and>
        Open Dummy_library ''123'' (c, Some [Obj [(''id'', Str ''1'')]]) =
          Panics ReflectNewNil)"
  by (simp add: NewMemoryPersistence_def Open_def load_def deferred_def file_Load_def
      Dummy_library_def)

section \<open>Items that do not fit the record type\<close>

text \<open>
  The constructors give a store a loader or a prototype, never both, and no call
  changes either field.
\<close>

lemma NewEmptyMemoryPersistence_no_loader:
  "NewEmptyMemoryPersistence T = Some c \<Longrightarrow> loader c = None"
  by (auto simp: NewEmptyMemoryPersistence_def split: option.splits)

lemma NewMemoryPersistence_no_prototype:
  "NewMemoryPersistence T ld sv = Some c \<Longrightarrow> prototype c = None"
  by (auto simp: NewMemoryPersistence_def split: option.splits)

lemma load_keeps_configuration:
  "load L cid (c, m) = Returns r (c', m') \<Longrightarrow>
     loader c' = loader c \<and> prototype c' = prototype c"
  by (auto simp: load_def split: option.splits prod.splits sum.splits if_splits)

lemma deferred_Returns:
  "deferred u out = Returns r (c', m') \<Longrightarrow>
     \<exists>c1. out = Returns r (c1, m') \<and> loader c' = loader c1 \<and> prototype c' = prototype c1"
  by (auto simp: deferred_def split: outcome.splits option.splits prod.splits)

lemma Open_keeps_configuration:
  assumes "Open L cid (c, m) = Returns r (c', m')"
  shows "loader c' = loader c \<and> prototype c' = prototype c"
proof (cases "Lock (lockMutex c)")
  case None
  then show ?thesis using assms by (simp add: Open_def)
next
  case (Some l)
  let ?c0 = "c\<lparr>lockMutex := l\<rparr>"
  from assms Some obtain c1 where
    c1: "(case load L cid (?c0, m) of
            Returns err (c', m') \<Rightarrow>
              Returns err (if err = None then c'\<lparr>opened := True\<rparr> else c', m')
          | Panics p \<Rightarrow> Panics p
          | Blocks s \<Rightarrow> Blocks s) = Returns r (c1, m')"
    and k: "loader c' = loader c1 \<and> prototype c' = prototype c1"
    using deferred_Returns by (fastforce simp: Open_def)
  from c1 obtain c2 where
    c2: "load L cid (?c0, m) = Returns r (c2, m')"
    and k2: "loader c1 = loader c2 \<and> prototype c1 = prototype c2"
    by (auto split: outcome.splits prod.splits if_splits)
  from load_keeps_configuration [OF c2] k k2 show ?thesis by simp
qed

lemma Save_keeps_configuration:
  assumes "Save cid (c, m) = Returns r (c', m')"
  shows "loader c' = loader c \<and> prototype c' = prototype c"
proof (cases "RLock (lockMutex c)")
  case None
  then show ?thesis using assms by (simp add: Save_def)
next
  case (Some l)
  from assms Some obtain c1 where
    c1: "(let c1 = c\<lparr>lockMutex := l\<rparr>
          in case saver c1 of
               None \<Rightarrow> Returns None (c1, m)
             | Some sv \<Rightarrow>
                 (case sv cid (items c1) m of (err, m') \<Rightarrow>
                    Returns err
                      (if err = None then
                         c1\<lparr>logger := logger c1 @
                              [(cid, ''Saved %d items'', [length (items c1)])]\<rparr>
                       else c1, m'))) = Returns r (c1, m')"
    and k: "loader c' = loader c1 \<and> prototype c' = prototype c1"
    using deferred_Returns by (fastforce simp: Save_def)
  from c1 have "loader c1 = loader c \<and> prototype c1 = prototype c"
    by (auto simp: Let_def split: option.splits prod.splits if_splits)
  with k show ?thesis by simp
qed

lemma Close_keeps_configuration:
  assumes "Close cid (c, m) = Returns r (c', m')"
  shows "loader c' = loader c \<and> prototype c' = prototype c"
proof -
  from assms obtain c1 where
    "Save cid (c, m) = Returns r (c1, m')" and "c' = c1\<lparr>opened := False\<rparr>"
    by (auto simp: Close_def split: outcome.splits prod.splits)
  then show ?thesis using Save_keeps_configuration by fastforce
qed

text \<open>
  On a store that has a loader and a prototype both, which no constructor here returns,
  the error of \<open>json.Unmarshal\<close> would go unseen.
\<close>

lemma Open_discards_Unmarshal_error:
  assumes "lockMutex c = Unlocked"
    and "loader c = Some ld"
    and "ld cid m = ((Some [v], None), m')"
    and "prototype c = Some t"
    and "Marshal L (ToNullableMap L v) = Inr b"
    and "Unmarshal L b (New L t) = (v', Some e)"
  shows "Open L cid (c, m) =
           Returns None
             (c\<lparr>items := [v'], logger := logger c @ [(cid, ''Loaded %d items'', [1])],
                opened := True\<rparr>, m')"
  using assms by (simp add: Open_def load_def deferred_def)



section \<open>Clear\<close>

text \<open>
  C4: \<open>Clear\<close>, called while the lock is free, takes the write lock, empties the
  collection, logs, and calls \<open>Save\<close>, which waits for the read lock that the write lock
  of the same call excludes.  The call blocks there: the collection is empty, the write
  lock is held, the saver has not been called, and nothing is returned.
\<close>

theorem Clear_blocks_in_Save:
  assumes "lockMutex c = Unlocked"
  shows "Clear cid (c, m) =
           Blocks (c\<lparr>lockMutex := WLocked, items := [],
                     logger := logger c @ [(cid, ''Cleared items'', [])]\<rparr>, m)"
  using assms by (simp add: Clear_def Save_def deferred_def)

theorem Clear_blocks_in_Save_witness:
  "Clear ''123'' (Dummy_store None (Some file_Save), None) =
     Blocks (\<lparr>logger = [(''123'', ''Cleared items'', [])], items = [], loader = None,
              saver = Some file_Save, opened = False, prototype = Some (),
              lockMutex = WLocked\<rparr>, None)"
proof -
  have h: "lockMutex (Dummy_store None (Some file_Save)) = Unlocked"
    by (simp add: Dummy_store_def)
  show ?thesis
    using Clear_blocks_in_Save [OF h, of "''123''" None]
    by (simp add: Dummy_store_def)
qed

text \<open>
  C10: \<open>Save\<close> is not reentrant under the exclusive lock.  Called while the write lock is
  held, as a mutation that holds it does, it blocks on the read lock before it reads the
  collection or the saver.
\<close>

theorem Save_blocks_under_write_lock:
  assumes "lockMutex c = WLocked"
  shows "Save cid (c, m) = Blocks (c, m)"
  using assms by (simp add: Save_def)

theorem Save_blocks_under_write_lock_witness:
  "Save ''123'' ((Dummy_store None None)\<lparr>lockMutex := WLocked\<rparr>, None) =
     Blocks ((Dummy_store None None)\<lparr>lockMutex := WLocked\<rparr>, None)"
proof -
  have h: "lockMutex ((Dummy_store None None)\<lparr>lockMutex := WLocked\<rparr>) = WLocked"
    by simp
  show ?thesis
    using Save_blocks_under_write_lock [OF h, of "''123''" None] by simp
qed

section \<open>The file-backed stores\<close>

lemma FilePersistence_Configure_forwards:
  "FilePersistence.persister (FilePersistence_Configure J conf c) =
     persister_Configure J conf (FilePersistence.persister c) \<and>
   MemoryPersistence (FilePersistence_Configure J conf c) = MemoryPersistence c"
  by (simp add: FilePersistence_Configure_def)

lemma NewFilePersistence_ignores_fallback:
  "NewFilePersistence (J\<lparr>NewJsonFilePersister := f\<rparr>) T p = NewFilePersistence J T p"
  by (simp add: NewFilePersistence_def address_is_nil_def)

lemma NewIdentifiableFilePersistence_ignores_fallback:
  "NewIdentifiableFilePersistence (J\<lparr>NewJsonFilePersister := f\<rparr>) newIMP T p =
     NewIdentifiableFilePersistence J newIMP T p"
  by (simp add: NewIdentifiableFilePersistence_def address_is_nil_def)



text \<open>
  C3: \<open>Configure\<close> of the identifiable file-backed store never returns, for any
  configuration and any store: it calls itself before it reaches the persister.
\<close>

theorem IdentifiableFilePersistence_Configure_never_returns:
  "IdentifiableFilePersistence_Configure J config c = None"
proof -
  have "IdentifiableFilePersistence_Configure J config c \<noteq> Some y" for y
  proof
    assume a: "IdentifiableFilePersistence_Configure J config c = Some y"
    show False
      by (rule IdentifiableFilePersistence_Configure.raw_induct
                 [where P = "\<lambda>J config c y. False", OF _ a])
         (auto simp: bind_eq_Some_conv)
  qed
  then show ?thesis
    by (cases "IdentifiableFilePersistence_Configure J config c") auto
qed

end
